theory Spec2Isabelle
  imports Complex_Main "HOL-Library.Word"
begin

section \<open>Outcomes of library calls\<close>

text \<open>
  The three scripts compute with IEEE doubles through numpy, scipy and the
  \<open>uncertainties\<close> package. The model computes over the real numbers; a value
  of type \<open>float\<close> is \<open>None\<close> where numpy would hold \<open>inf\<close> or \<open>nan\<close>.
  An exception is a value \<open>Raised e\<close>. \<open>Unmodelled\<close> marks inputs on which the
  model does not say what the libraries do (non-finite numbers reaching a solver,
  a covariance that the solver did not determine).
\<close>

datatype py_error =
  FileNotFoundError | PermissionError | KeyError | ValueError | TypeError | ZeroDivisionError

datatype 'a outcome = Raised py_error | Returned 'a | Unmodelled

definition and_then :: "'a outcome \<Rightarrow> ('a \<Rightarrow> 'b outcome) \<Rightarrow> 'b outcome" where
  "and_then r k = (case r of Raised e \<Rightarrow> Raised e | Unmodelled \<Rightarrow> Unmodelled | Returned a \<Rightarrow> k a)"

type_synonym float = "real option"

record matrix2 =
  m00 :: real
  m01 :: real
  m10 :: real
  m11 :: real

section \<open>The fit: \<open>curve_fit(linear_model, x, y, sigma=..., absolute_sigma=True)\<close>\<close>

definition linear_model :: "real \<Rightarrow> real \<Rightarrow> real \<Rightarrow> real" where
  "linear_model x m b = m * x + b"

text \<open>
  \<open>popt = None\<close>: the call returns, but the point the solver stopped at is not
  determined by the data (rank-deficient problem). \<open>pcov = None\<close>: the call
  returns a matrix that the model does not give; it depends on where the
  solver stopped, or is filled with \<open>inf\<close>.
\<close>

datatype fit = Fit (popt: "(real \<times> real) option") (pcov: "matrix2 option")

text \<open>
  For a model function that is affine in its two parameters the columns of the
  Jacobian and the offset are read off the function itself.
\<close>

definition jac_m :: "(real \<Rightarrow> real \<Rightarrow> real \<Rightarrow> real) \<Rightarrow> real \<Rightarrow> real" where
  "jac_m f x = f x 1 0 - f x 0 0"

definition jac_b :: "(real \<Rightarrow> real \<Rightarrow> real \<Rightarrow> real) \<Rightarrow> real \<Rightarrow> real" where
  "jac_b f x = f x 0 1 - f x 0 0"

definition offset :: "(real \<Rightarrow> real \<Rightarrow> real \<Rightarrow> real) \<Rightarrow> real \<Rightarrow> real" where
  "offset f x = f x 0 0"

type_synonym sample = "real \<times> real \<times> real"

definition h00 :: "(real \<Rightarrow> real \<Rightarrow> real \<Rightarrow> real) \<Rightarrow> sample list \<Rightarrow> real" where
  "h00 f rows = (\<Sum>(x, y, s) \<leftarrow> rows. (jac_m f x / s) * (jac_m f x / s))"

definition h01 :: "(real \<Rightarrow> real \<Rightarrow> real \<Rightarrow> real) \<Rightarrow> sample list \<Rightarrow> real" where
  "h01 f rows = (\<Sum>(x, y, s) \<leftarrow> rows. (jac_m f x / s) * (jac_b f x / s))"

definition h11 :: "(real \<Rightarrow> real \<Rightarrow> real \<Rightarrow> real) \<Rightarrow> sample list \<Rightarrow> real" where
  "h11 f rows = (\<Sum>(x, y, s) \<leftarrow> rows. (jac_b f x / s) * (jac_b f x / s))"

definition g0 :: "(real \<Rightarrow> real \<Rightarrow> real \<Rightarrow> real) \<Rightarrow> sample list \<Rightarrow> real" where
  "g0 f rows = (\<Sum>(x, y, s) \<leftarrow> rows. (jac_m f x / s) * ((y - offset f x) / s))"

definition g1 :: "(real \<Rightarrow> real \<Rightarrow> real \<Rightarrow> real) \<Rightarrow> sample list \<Rightarrow> real" where
  "g1 f rows = (\<Sum>(x, y, s) \<leftarrow> rows. (jac_b f x / s) * ((y - offset f x) / s))"

text \<open>The weighted sum of squared residuals that the solver minimises.\<close>

definition cost :: "(real \<Rightarrow> real \<Rightarrow> real \<Rightarrow> real) \<Rightarrow> sample list \<Rightarrow> real \<Rightarrow> real \<Rightarrow> real" where
  "cost f rows m b = (\<Sum>(x, y, s) \<leftarrow> rows. ((y - f x m b) / s)\<^sup>2)"

definition scale_matrix :: "real \<Rightarrow> matrix2 \<Rightarrow> matrix2" where
  "scale_matrix k c = \<lparr>m00 = k * m00 c, m01 = k * m01 c, m10 = k * m10 c, m11 = k * m11 c\<rparr>"

text \<open>
  The solver behind \<open>curve_fit\<close> (MINPACK, Levenberg-Marquardt) is given no
  Jacobian by the scripts: it differentiates the model function by forward
  differences with a step proportional to each parameter, and \<open>pcov\<close> is computed
  from that Jacobian at the point where the iteration stopped. Over the reals
  the iteration ends at the minimiser of the weighted sum of squares. Where both
  parameters of the minimiser are non-zero the forward differences reproduce the
  Jacobian of the affine model and \<open>pcov\<close> is the inverse of \<open>J\<^sup>T J\<close>, up to the
  accuracy of the differences. Where a parameter of the minimiser is zero the
  solver stops at a rounding-sized value, the step is lost in the rounding of
  the residuals, and the matrix it returns (finite or \<open>inf\<close>) is not determined:
  the model gives none. On a rank-deficient problem neither the point nor the
  matrix is determined; the call still returns.
\<close>

definition leastsq ::
  "(real \<Rightarrow> real \<Rightarrow> real \<Rightarrow> real) \<Rightarrow> sample list \<Rightarrow> bool \<Rightarrow> fit outcome" where
  "leastsq f rows absolute_sigma =
    (let a = h00 f rows; c = h01 f rows; d = h11 f rows;
         det = a * d - c * c
     in if det = 0 then Returned (Fit None None)
        else
         let m = (d * g0 f rows - c * g1 f rows) / det;
             b = (a * g1 f rows - c * g0 f rows) / det;
             cov = \<lparr>m00 = d / det, m01 = - c / det, m10 = - c / det, m11 = a / det\<rparr>
         in if m = 0 \<or> b = 0 then Returned (Fit (Some (m, b)) None)
            else if absolute_sigma then Returned (Fit (Some (m, b)) (Some cov))
            else if 2 < length rows
              then Returned (Fit (Some (m, b))
                     (Some (scale_matrix (cost f rows m b / (real (length rows) - 2)) cov)))
              else Returned (Fit (Some (m, b)) None))"

definition weights_of :: "float list \<Rightarrow> nat \<Rightarrow> float list" where
  "weights_of sigma n = (if length sigma = 1 then replicate n (hd sigma) else sigma)"

definition solve ::
  "(real \<Rightarrow> real \<Rightarrow> real \<Rightarrow> real) \<Rightarrow> real list \<Rightarrow> real list \<Rightarrow> float list \<Rightarrow> bool \<Rightarrow> fit outcome" where
  "solve f xs ys sigma absolute_sigma =
    (if length ys < 2 then Raised TypeError
     else case those sigma of
            None \<Rightarrow> Unmodelled
          | Some sg \<Rightarrow>
              if 0 \<in> set sg then Unmodelled
              else leastsq f (zip xs (zip ys sg)) absolute_sigma)"

text \<open>
  \<open>curve_fit\<close> with its default \<open>check_finite=True\<close>, \<open>p0=None\<close> and
  \<open>method='lm'\<close>: non-finite data, empty data and a \<open>sigma\<close> of the wrong shape
  raise ValueError; fewer data points than parameters raise TypeError in
  \<open>leastsq\<close>. A \<open>sigma\<close> of size one is broadcast.
\<close>

definition curve_fit ::
  "(real \<Rightarrow> real \<Rightarrow> real \<Rightarrow> real) \<Rightarrow> float list \<Rightarrow> float list \<Rightarrow> float list \<Rightarrow> bool \<Rightarrow> fit outcome" where
  "curve_fit f xdata ydata sigma absolute_sigma =
    (case (those ydata, those xdata) of
       (None, _) \<Rightarrow> Raised ValueError
     | (Some ys, None) \<Rightarrow> Raised ValueError
     | (Some ys, Some xs) \<Rightarrow>
         if ys = [] then Raised ValueError
         else if length sigma \<noteq> 1 \<and> length sigma \<noteq> length ys then Raised ValueError
         else if length xs \<noteq> length ys then Unmodelled
         else solve f xs ys (weights_of sigma (length ys)) absolute_sigma)"

section \<open>Numbers with uncertainties\<close>

text \<open>
  A number with uncertainty carries its nominal value and its first-order
  dependence on the uncertain inputs of the scripts: the two fit parameters
  and (in the specific-heat script) the volume. \<open>correlated_values\<close> returns
  two numbers whose joint covariance is the given matrix; \<open>sources\<close> records
  that covariance and the variance of the independent volume, which the
  package keeps inside the numbers.
\<close>

record ufloat =
  nominal_value :: real
  d_slope :: real
  d_intercept :: real
  d_volume :: real

record sources =
  fit_cov :: matrix2
  volume_var :: real

definition variance :: "sources \<Rightarrow> ufloat \<Rightarrow> real" where
  "variance src u =
     d_slope u * d_slope u * m00 (fit_cov src)
     + d_slope u * d_intercept u * m01 (fit_cov src)
     + d_intercept u * d_slope u * m10 (fit_cov src)
     + d_intercept u * d_intercept u * m11 (fit_cov src)
     + d_volume u * d_volume u * volume_var src"

definition std_dev :: "sources \<Rightarrow> ufloat \<Rightarrow> real" where
  "std_dev src u = sqrt (variance src u)"

text \<open>
  \<open>correlated_values\<close> takes the square roots of the diagonal as standard
  deviations, divides the matrix by them (by 1 where one is zero) to get a
  correlation matrix, diagonalises its lower triangle with \<open>numpy.linalg.eigh\<close>,
  sets negative eigenvalues to zero (\<open>variances[variances < 0] = 0.\<close>) and builds
  the two numbers from independent variables with the remaining variances. The
  covariance the two numbers then carry is the correlation matrix with its
  negative eigenvalues removed, scaled back by the standard deviations. A
  negative diagonal entry gives \<open>nan\<close>.
\<close>

definition eig_lo :: "real \<Rightarrow> real \<Rightarrow> real \<Rightarrow> real" where
  "eig_lo a r d = (a + d) / 2 - sqrt (((a - d) / 2)\<^sup>2 + r\<^sup>2)"

definition eig_hi :: "real \<Rightarrow> real \<Rightarrow> real \<Rightarrow> real" where
  "eig_hi a r d = (a + d) / 2 + sqrt (((a - d) / 2)\<^sup>2 + r\<^sup>2)"

text \<open>
  The symmetric matrix with diagonal \<open>a\<close>, \<open>d\<close> and off-diagonal \<open>r\<close> after its
  negative eigenvalues are set to zero.
\<close>

definition clip_negative :: "real \<Rightarrow> real \<Rightarrow> real \<Rightarrow> matrix2" where
  "clip_negative a r d =
    (if 0 \<le> eig_lo a r d then \<lparr>m00 = a, m01 = r, m10 = r, m11 = d\<rparr>
     else if eig_hi a r d \<le> 0 then \<lparr>m00 = 0, m01 = 0, m10 = 0, m11 = 0\<rparr>
     else scale_matrix (eig_hi a r d / (eig_hi a r d - eig_lo a r d))
            \<lparr>m00 = a - eig_lo a r d, m01 = r, m10 = r, m11 = d - eig_lo a r d\<rparr>)"

definition effective_cov :: "matrix2 \<Rightarrow> matrix2" where
  "effective_cov c =
    (let s0 = sqrt (m00 c); s1 = sqrt (m11 c);
         n0 = (if s0 = 0 then 1 else s0); n1 = (if s1 = 0 then 1 else s1);
         p = clip_negative (m00 c / n0 / n0) (m10 c / n0 / n1) (m11 c / n1 / n1)
     in \<lparr>m00 = s0 * s0 * m00 p, m01 = s0 * s1 * m01 p,
         m10 = s1 * s0 * m10 p, m11 = s1 * s1 * m11 p\<rparr>)"

definition correlated_values :: "real \<times> real \<Rightarrow> matrix2 \<Rightarrow> (ufloat \<times> ufloat \<times> matrix2) outcome" where
  "correlated_values p c =
    (if m00 c < 0 \<or> m11 c < 0 then Unmodelled
     else Returned
       (\<lparr>nominal_value = fst p, d_slope = 1, d_intercept = 0, d_volume = 0\<rparr>,
        \<lparr>nominal_value = snd p, d_slope = 0, d_intercept = 1, d_volume = 0\<rparr>,
        effective_cov c))"

definition uconst :: "real \<Rightarrow> ufloat" where
  "uconst c = \<lparr>nominal_value = c, d_slope = 0, d_intercept = 0, d_volume = 0\<rparr>"

definition uneg :: "ufloat \<Rightarrow> ufloat" where
  "uneg u = \<lparr>nominal_value = - nominal_value u, d_slope = - d_slope u,
             d_intercept = - d_intercept u, d_volume = - d_volume u\<rparr>"

definition uadd :: "ufloat \<Rightarrow> ufloat \<Rightarrow> ufloat" where
  "uadd u v = \<lparr>nominal_value = nominal_value u + nominal_value v,
               d_slope = d_slope u + d_slope v,
               d_intercept = d_intercept u + d_intercept v,
               d_volume = d_volume u + d_volume v\<rparr>"

definition usub :: "ufloat \<Rightarrow> ufloat \<Rightarrow> ufloat" where
  "usub u v = \<lparr>nominal_value = nominal_value u - nominal_value v,
               d_slope = d_slope u - d_slope v,
               d_intercept = d_intercept u - d_intercept v,
               d_volume = d_volume u - d_volume v\<rparr>"

definition umul :: "ufloat \<Rightarrow> ufloat \<Rightarrow> ufloat" where
  "umul u v = \<lparr>nominal_value = nominal_value u * nominal_value v,
               d_slope = nominal_value v * d_slope u + nominal_value u * d_slope v,
               d_intercept = nominal_value v * d_intercept u + nominal_value u * d_intercept v,
               d_volume = nominal_value v * d_volume u + nominal_value u * d_volume v\<rparr>"

definition udiv :: "ufloat \<Rightarrow> ufloat \<Rightarrow> ufloat outcome" where
  "udiv u v =
    (if nominal_value v = 0 then Raised ZeroDivisionError
     else Returned
       \<lparr>nominal_value = nominal_value u / nominal_value v,
        d_slope = d_slope u / nominal_value v
                  - nominal_value u / (nominal_value v)\<^sup>2 * d_slope v,
        d_intercept = d_intercept u / nominal_value v
                  - nominal_value u / (nominal_value v)\<^sup>2 * d_intercept v,
        d_volume = d_volume u / nominal_value v
                  - nominal_value u / (nominal_value v)\<^sup>2 * d_volume v\<rparr>)"


text \<open>Python's division of two floats.\<close>

definition py_div :: "real \<Rightarrow> real \<Rightarrow> real outcome" where
  "py_div a b = (if b = 0 then Raised ZeroDivisionError else Returned (a / b))"





section \<open>Data frames\<close>

text \<open>
  A table as \<open>pd.read_csv\<close> returns it, with the column names already stripped
  (\<open>df.columns.str.strip()\<close>) and every cell a finite number. A column whose cells
  are all integers is read as \<open>int64\<close>, any other numeric column as \<open>float64\<close>.
\<close>

datatype series = Int64 "64 word list" | Float64 "real list"

type_synonym dataframe = "string \<rightharpoonup> series"

definition column :: "dataframe \<Rightarrow> string \<Rightarrow> series outcome" where
  "column df name = (case df name of None \<Rightarrow> Raised KeyError | Some v \<Rightarrow> Returned v)"

text \<open>The values of a column as floats, as every operation with a float takes them.\<close>

definition as_float :: "series \<Rightarrow> real list" where
  "as_float v = (case v of Int64 ws \<Rightarrow> map (\<lambda>w. real_of_int (sint w)) ws | Float64 xs \<Rightarrow> xs)"

text \<open>\<open>v ** 2\<close>: an \<open>int64\<close> column stays \<open>int64\<close> and wraps around silently.\<close>

definition squared :: "series \<Rightarrow> series" where
  "squared v = (case v of Int64 ws \<Rightarrow> Int64 (map (\<lambda>w. w * w) ws)
                        | Float64 xs \<Rightarrow> Float64 (map (\<lambda>x. x\<^sup>2) xs))"

definition to_numpy :: "real list \<Rightarrow> float list" where
  "to_numpy v = map Some v"

section \<open>v5\_gas\_thermometer\_heating.py\<close>

definition SIGMA_P :: real where "SIGMA_P = 5"

definition lit_value :: real where "lit_value = - 273.15"

record heating_results =
  h_slope :: ufloat
  h_intercept :: ufloat
  h_T0 :: ufloat
  h_sigma_deviation :: real
  h_sources :: sources

definition absolute_zero :: "ufloat \<Rightarrow> ufloat \<Rightarrow> ufloat outcome" where
  "absolute_zero slope intercept = udiv (uneg intercept) slope"

definition heating_analysis :: "dataframe \<Rightarrow> heating_results outcome" where
  "heating_analysis df =
    and_then (column df ''Temperatur (C)'') (\<lambda>T_celsius.
    and_then (column df ''Druck (hPa)'') (\<lambda>p_hPa.
    and_then (curve_fit linear_model (to_numpy (as_float T_celsius)) (to_numpy (as_float p_hPa))
                (replicate (length (as_float p_hPa)) (Some SIGMA_P)) True) (\<lambda>ft.
    case (popt ft, pcov ft) of
      (Some po, Some pc) \<Rightarrow>
        and_then (correlated_values po pc) (\<lambda>(slope, intercept, c).
        and_then (absolute_zero slope intercept) (\<lambda>T0.
        and_then (py_div \<bar>nominal_value T0 - lit_value\<bar>
                    (std_dev \<lparr>fit_cov = c, volume_var = 0\<rparr> T0)) (\<lambda>dev.
        Returned \<lparr>h_slope = slope, h_intercept = intercept, h_T0 = T0,
                  h_sigma_deviation = dev,
                  h_sources = \<lparr>fit_cov = c, volume_var = 0\<rparr>\<rparr>)))
    | _ \<Rightarrow> Unmodelled)))"

subsection \<open>The run of the script\<close>

datatype read_result = ReadError py_error | Table dataframe

record env =
  dir_exists :: "string \<Rightarrow> bool"
  read_csv :: "string \<Rightarrow> read_result"

datatype message =
  CreatedDirectory | SuccessfullyLoaded | ErrorLoadingFile | ResultsText | ResultsSaved | PlotSaved

record effects =
  made_dirs :: "string list"
  printed :: "message list"
  written :: "string list"

definition FILENAME :: string where "FILENAME = ''data/v5_heating.csv''"
definition OUTPUT_DIR :: string where "OUTPUT_DIR = ''plots''"
definition PLOT_FILE :: string where "PLOT_FILE = ''v5_gas_thermometer_heating.pdf''"
definition TXT_FILE :: string where "TXT_FILE = ''results_gas_thermometer_heating.txt''"

definition path_join :: "string \<Rightarrow> string \<Rightarrow> string" where
  "path_join d f = d @ ''/'' @ f"

definition make_output_dir :: "env \<Rightarrow> effects \<Rightarrow> effects" where
  "make_output_dir ev ef =
    (if \<not> dir_exists ev OUTPUT_DIR
     then ef\<lparr>made_dirs := made_dirs ef @ [OUTPUT_DIR], printed := printed ef @ [CreatedDirectory]\<rparr>
     else ef)"

definition load_lab_data :: "env \<Rightarrow> string \<Rightarrow> effects \<Rightarrow> effects \<times> dataframe option outcome" where
  "load_lab_data ev filename ef =
    (case read_csv ev filename of
       Table df \<Rightarrow> (ef\<lparr>printed := printed ef @ [SuccessfullyLoaded]\<rparr>, Returned (Some df))
     | ReadError FileNotFoundError \<Rightarrow>
         (ef\<lparr>printed := printed ef @ [ErrorLoadingFile]\<rparr>, Returned None)
     | ReadError e \<Rightarrow> (ef, Raised e))"

text \<open>
  The second component says how the script ended and, when it ran the analysis,
  with which results; \<open>Returned None\<close> is the run that skipped the block under
  \<open>if df is not None\<close>.
\<close>

definition heating_script :: "env \<Rightarrow> effects \<times> heating_results option outcome" where
  "heating_script ev =
    (case load_lab_data ev FILENAME
            (make_output_dir ev \<lparr>made_dirs = [], printed = [], written = []\<rparr>) of
       (ef, Raised e) \<Rightarrow> (ef, Raised e)
     | (ef, Unmodelled) \<Rightarrow> (ef, Unmodelled)
     | (ef, Returned None) \<Rightarrow> (ef, Returned None)
     | (ef, Returned (Some df)) \<Rightarrow>
        (case heating_analysis df of
           Raised e \<Rightarrow> (ef, Raised e)
         | Unmodelled \<Rightarrow> (ef, Unmodelled)
         | Returned r \<Rightarrow>
            (ef\<lparr>printed := printed ef @ [ResultsText, ResultsSaved, PlotSaved],
                written := written ef @ [path_join OUTPUT_DIR TXT_FILE, path_join OUTPUT_DIR PLOT_FILE]\<rparr>,
             Returned (Some r))))"

section \<open>v5\_specific\_heat.py\<close>

definition SIGMA_H :: real where "SIGMA_H = 0.5"
definition V_ERR :: real where "V_ERR = 0.000129"
definition C_capacity :: real where "C_capacity = 20 / 10 ^ 6"
definition RHO_WATER :: real where "RHO_WATER = 1000"
definition G :: real where "G = 9.81"
definition VOLUME_VAL :: real where "VOLUME_VAL = 3.2 / 10 ^ 3"

text \<open>\<open>VOLUME = ufloat(VOLUME_VAL, V_ERR)\<close>: an independent uncertain input.\<close>

definition VOLUME :: ufloat where
  "VOLUME = \<lparr>nominal_value = VOLUME_VAL, d_slope = 0, d_intercept = 0, d_volume = 1\<rparr>"

definition Delta_Q :: "series \<Rightarrow> real list" where
  "Delta_Q U_volt = map (\<lambda>q. 0.5 * C_capacity * q) (as_float (squared U_volt))"

definition Delta_p :: "real list \<Rightarrow> real list" where
  "Delta_p Delta_H_mm = map (\<lambda>h. RHO_WATER * G * (h / 1000)) Delta_H_mm"

definition sigma_p_heat :: "real list \<Rightarrow> real list" where
  "sigma_p_heat dp = replicate (length dp) (RHO_WATER * G * (SIGMA_H / 1000))"

definition kappa_of :: "ufloat \<Rightarrow> ufloat" where
  "kappa_of slope = uadd (umul slope VOLUME) (uconst 1)"

definition f_measured_of :: "ufloat \<Rightarrow> ufloat outcome" where
  "f_measured_of kappa = udiv (uconst 2) (usub kappa (uconst 1))"

record specific_heat_results =
  s_slope :: ufloat
  s_intercept :: ufloat
  s_kappa :: ufloat
  s_sigma_dev_k :: real
  s_f_measured :: ufloat
  s_sources :: sources

definition specific_heat_analysis :: "dataframe \<Rightarrow> specific_heat_results outcome" where
  "specific_heat_analysis df =
    and_then (column df ''Spannung (V)'') (\<lambda>U_volt.
    and_then (column df ''Delta_H (mm)'') (\<lambda>Delta_H_mm.
    and_then (curve_fit linear_model (to_numpy (Delta_Q U_volt))
                (to_numpy (Delta_p (as_float Delta_H_mm)))
                (to_numpy (sigma_p_heat (Delta_p (as_float Delta_H_mm)))) True) (\<lambda>ft.
    case (popt ft, pcov ft) of
      (Some po, Some pc) \<Rightarrow>
        and_then (correlated_values po pc) (\<lambda>(slope, intercept, c).
        and_then (py_div \<bar>nominal_value (kappa_of slope) - 1.40\<bar>
                    (std_dev \<lparr>fit_cov = c, volume_var = V_ERR * V_ERR\<rparr> (kappa_of slope))) (\<lambda>dev.
        and_then (f_measured_of (kappa_of slope)) (\<lambda>f.
        Returned \<lparr>s_slope = slope, s_intercept = intercept, s_kappa = kappa_of slope,
                  s_sigma_dev_k = dev, s_f_measured = f,
                  s_sources = \<lparr>fit_cov = c, volume_var = V_ERR * V_ERR\<rparr>\<rparr>)))
    | _ \<Rightarrow> Unmodelled)))"


section \<open>v7\_cooling.py\<close>

definition R_GAS :: real where "R_GAS = 8.31446"
definition LIT_VAL_100C :: real where "LIT_VAL_100C = 40.66"

subsection \<open>numpy operations that can leave the finite numbers\<close>

definition np_sqrt :: "real \<Rightarrow> float" where
  "np_sqrt x = (if x < 0 then None else Some (sqrt x))"

definition np_log :: "real \<Rightarrow> float" where
  "np_log x = (if x \<le> 0 then None else Some (ln x))"

definition np_divide :: "real \<Rightarrow> real \<Rightarrow> float" where
  "np_divide x y = (if y = 0 then None else Some (x / y))"

definition lift2 :: "(real \<Rightarrow> real \<Rightarrow> float) \<Rightarrow> float \<Rightarrow> float \<Rightarrow> float" where
  "lift2 f a b = (case (a, b) of (Some x, Some y) \<Rightarrow> f x y | _ \<Rightarrow> None)"

subsection \<open>Conversions and uncertainties\<close>

definition resistance_to_temperature :: "real list \<Rightarrow> float list" where
  "resistance_to_temperature R_ohm =
    map (\<lambda>r. map_option (\<lambda>root. (- 3.9083 / 10 ^ 3 + root) / (2 * (- 5.775 / 10 ^ 7)))
                (np_sqrt ((3.9083 / 10 ^ 3)\<^sup>2 - 4 * (- 5.775 / 10 ^ 7) * (1 - r / 1000))))
        R_ohm"

definition T_kelvin_of :: "float list \<Rightarrow> float list" where
  "T_kelvin_of T_celsius = map (map_option (\<lambda>t. t + 273.15)) T_celsius"

definition sigma_T_of :: "float list \<Rightarrow> float list" where
  "sigma_T_of T_celsius =
    map (\<lambda>t. Option.bind t (\<lambda>t. np_sqrt ((1.0 / 3.85)\<^sup>2 + (0.3 + 0.005 * t)\<^sup>2))) T_celsius"

definition sigma_p_of :: "real list \<Rightarrow> real list" where
  "sigma_p_of p_bar = map (\<lambda>p. 0.01 * p) p_bar"

definition x_val_of :: "float list \<Rightarrow> float list" where
  "x_val_of T_kelvin = map (lift2 np_divide (Some 1.0)) T_kelvin"

definition y_val_of :: "real list \<Rightarrow> float list" where
  "y_val_of p_bar = map np_log p_bar"

definition x_err_of :: "float list \<Rightarrow> float list \<Rightarrow> float list" where
  "x_err_of sigma_T T_kelvin =
    map2 (lift2 np_divide) sigma_T (map (map_option (\<lambda>t. t\<^sup>2)) T_kelvin)"

definition y_err_of :: "real list \<Rightarrow> real list \<Rightarrow> float list" where
  "y_err_of sigma_p p_bar = map2 np_divide sigma_p p_bar"

subsection \<open>Fitting with effective variance\<close>

definition sigma_eff_of :: "real \<Rightarrow> float list \<Rightarrow> float list \<Rightarrow> float list" where
  "sigma_eff_of m_init y_err x_err =
    map2 (lift2 (\<lambda>ye xe. np_sqrt (ye\<^sup>2 + (m_init * xe)\<^sup>2))) y_err x_err"

definition cooling_fit ::
  "float list \<Rightarrow> float list \<Rightarrow> float list \<Rightarrow> float list \<Rightarrow> fit outcome" where
  "cooling_fit x_val y_val x_err y_err =
    and_then (curve_fit linear_model x_val y_val y_err True) (\<lambda>ft_init.
      case popt ft_init of
        None \<Rightarrow> Unmodelled
      | Some popt_init \<Rightarrow>
          curve_fit linear_model x_val y_val (sigma_eff_of (fst popt_init) y_err x_err) True)"

record cooling_results =
  c_slope :: ufloat
  c_intercept :: ufloat
  c_Delta_H_kJ :: ufloat
  c_sigma_dev :: real
  c_sources :: sources

definition Delta_H_kJ_of :: "ufloat \<Rightarrow> ufloat outcome" where
  "Delta_H_kJ_of slope = udiv (umul (uneg slope) (uconst R_GAS)) (uconst 1000.0)"

definition cooling_analysis :: "dataframe \<Rightarrow> cooling_results outcome" where
  "cooling_analysis df =
    and_then (column df ''Druck (Bar)'') (\<lambda>p_bar.
    and_then (column df ''Ohmzahl (Ohm)'') (\<lambda>R_ohm.
    and_then (cooling_fit
                (x_val_of (T_kelvin_of (resistance_to_temperature (as_float R_ohm))))
                (y_val_of (as_float p_bar))
                (x_err_of (sigma_T_of (resistance_to_temperature (as_float R_ohm)))
                          (T_kelvin_of (resistance_to_temperature (as_float R_ohm))))
                (y_err_of (sigma_p_of (as_float p_bar)) (as_float p_bar))) (\<lambda>ft.
    case (popt ft, pcov ft) of
      (Some po, Some pc) \<Rightarrow>
        and_then (correlated_values po pc) (\<lambda>(slope, intercept, c).
        and_then (Delta_H_kJ_of slope) (\<lambda>Delta_H_kJ.
        and_then (py_div \<bar>nominal_value Delta_H_kJ - LIT_VAL_100C\<bar>
                    (std_dev \<lparr>fit_cov = c, volume_var = 0\<rparr> Delta_H_kJ)) (\<lambda>dev.
        Returned \<lparr>c_slope = slope, c_intercept = intercept, c_Delta_H_kJ = Delta_H_kJ,
                  c_sigma_dev = dev, c_sources = \<lparr>fit_cov = c, volume_var = 0\<rparr>\<rparr>)))
    | _ \<Rightarrow> Unmodelled)))"

section \<open>The refinement as the specification words it\<close>

text \<open>
  The effective-variance refinement with a chosen number of passes: the first
  pass fits with \<open>sigma_y\<close> alone; every further pass recomputes
  \<open>sigma_eff\<^sub>i\<^sup>2 = sigma_y\<^sub>i\<^sup>2 + (m\<^sub>0 * sigma_x\<^sub>i)\<^sup>2\<close> from the slope \<open>m\<^sub>0\<close> of the pass
  before it and fits again. \<open>refine k\<close> runs \<open>k + 1\<close> passes.
\<close>

fun refine ::
  "nat \<Rightarrow> float list \<Rightarrow> float list \<Rightarrow> float list \<Rightarrow> float list \<Rightarrow> fit outcome" where
  "refine 0 x y sigma_x sigma_y = curve_fit linear_model x y sigma_y True"
| "refine (Suc k) x y sigma_x sigma_y =
    (case refine k x y sigma_x sigma_y of
       Raised e \<Rightarrow> Raised e
     | Unmodelled \<Rightarrow> Unmodelled
     | Returned ft \<Rightarrow>
        (case popt ft of
           None \<Rightarrow> Unmodelled
         | Some (m0, b0) \<Rightarrow>
             curve_fit linear_model x y
               (map2 (\<lambda>sy sx. case (sy, sx) of
                                (Some sy, Some sx) \<Rightarrow> Some (sqrt (sy\<^sup>2 + (m0 * sx)\<^sup>2))
                              | _ \<Rightarrow> None)
                     sigma_y sigma_x)
               True))"

section \<open>Notions used to state the properties\<close>

text \<open>
  The weighted sum of squared residuals of the line \<open>y = m * x + b\<close>, the matrix
  \<open>J\<^sup>T J\<close> of the normal equations of that problem, and 2x2 matrix algebra.
\<close>

definition valid_covariance :: "matrix2 \<Rightarrow> bool" where
  "valid_covariance c \<longleftrightarrow> 0 \<le> m00 c \<and> 0 \<le> m11 c \<and> m10 c * m10 c \<le> m00 c * m11 c"







text \<open>The data set of the end-to-end scenario, as the heating script reads it.\<close>

definition heating_example :: dataframe where
  "heating_example =
     [''Temperatur (C)'' \<mapsto> Float64 [0, 10, 20, 30],
      ''Druck (hPa)'' \<mapsto> Float64 [1000, 1040, 1080, 1120]]"





text \<open>A two-point data set for the specific-heat script.\<close>

definition specific_heat_example :: dataframe where
  "specific_heat_example =
     [''Spannung (V)'' \<mapsto> Int64 [0, 1000], ''Delta_H (mm)'' \<mapsto> Float64 [100, 1100]]"

text \<open>Two environments without an output directory: the input file is missing, or it cannot be read.\<close>

definition missing_file_env :: env where
  "missing_file_env = \<lparr>dir_exists = (\<lambda>d. False), read_csv = (\<lambda>f. ReadError FileNotFoundError)\<rparr>"

definition unreadable_file_env :: env where
  "unreadable_file_env = \<lparr>dir_exists = (\<lambda>d. False), read_csv = (\<lambda>f. ReadError PermissionError)\<rparr>"

text \<open>
  A two-point data set for the cooling script: 0 and 100 degrees Celsius on the
  resistance thermometer, at the pressures \<open>exp (- 5)\<close> and 1 bar.
\<close>

definition cooling_example :: dataframe where
  "cooling_example =
     [''Druck (Bar)'' \<mapsto> Float64 [exp (- 5), 1], ''Ohmzahl (Ohm)'' \<mapsto> Float64 [1000, 1385.055]]"

section \<open>Properties\<close>

subsection \<open>The weighted least-squares solution\<close>

lemma jac_linear:
  "jac_m linear_model x = x" "jac_b linear_model x = 1" "offset linear_model x = 0"
  by (simp_all add: jac_m_def jac_b_def offset_def linear_model_def)





























subsection \<open>The covariance carried by correlated values\<close>

lemma eig_lo_nonneg:
  assumes "0 \<le> a" "0 \<le> d" "r * r \<le> a * d"
  shows "0 \<le> eig_lo a r d"
proof -
  have "((a - d) / 2)\<^sup>2 + r\<^sup>2 \<le> ((a + d) / 2)\<^sup>2"
  proof -
    have "((a + d) / 2)\<^sup>2 - ((a - d) / 2)\<^sup>2 = a * d"
      by (simp add: power2_eq_square field_simps)
    with assms(3) show ?thesis by (simp add: power2_eq_square)
  qed
  moreover have "0 \<le> (a + d) / 2" using assms by simp
  ultimately have "sqrt (((a - d) / 2)\<^sup>2 + r\<^sup>2) \<le> (a + d) / 2"
    by (rule real_le_lsqrt [rotated 1]) 
  then show ?thesis by (simp add: eig_lo_def)
qed

lemma effective_cov_valid:
  assumes "valid_covariance c"
  shows "effective_cov c = \<lparr>m00 = m00 c, m01 = m10 c, m10 = m10 c, m11 = m11 c\<rparr>"
proof -
  define s0 where "s0 = sqrt (m00 c)"
  define s1 where "s1 = sqrt (m11 c)"
  define n0 where "n0 = (if s0 = 0 then 1 else s0)"
  define n1 where "n1 = (if s1 = 0 then 1 else s1)"
  from assms have c00: "0 \<le> m00 c" and c11: "0 \<le> m11 c"
    and det: "m10 c * m10 c \<le> m00 c * m11 c"
    by (simp_all add: valid_covariance_def)
  have s0: "0 \<le> s0" "s0 * s0 = m00 c" using c00 by (simp_all add: s0_def)
  have s1: "0 \<le> s1" "s1 * s1 = m11 c" using c11 by (simp_all add: s1_def)
  have n0: "0 < n0" using s0(1) by (simp add: n0_def)
  have n1: "0 < n1" using s1(1) by (simp add: n1_def)
  have a: "0 \<le> m00 c / n0 / n0" using c00 n0 by simp
  have d: "0 \<le> m11 c / n1 / n1" using c11 n1 by simp
  have r: "m10 c / n0 / n1 * (m10 c / n0 / n1) \<le> m00 c / n0 / n0 * (m11 c / n1 / n1)"
  proof -
    have "m10 c / n0 / n1 * (m10 c / n0 / n1) = m10 c * m10 c / (n0 * n0 * (n1 * n1))"
      by simp
    also have "\<dots> \<le> m00 c * m11 c / (n0 * n0 * (n1 * n1))"
      using det n0 n1 by (simp add: divide_right_mono)
    also have "\<dots> = m00 c / n0 / n0 * (m11 c / n1 / n1)" by simp
    finally show ?thesis .
  qed
  have clip: "clip_negative (m00 c / n0 / n0) (m10 c / n0 / n1) (m11 c / n1 / n1)
      = \<lparr>m00 = m00 c / n0 / n0, m01 = m10 c / n0 / n1, m10 = m10 c / n0 / n1,
         m11 = m11 c / n1 / n1\<rparr>"
    using eig_lo_nonneg [OF a d r] by (simp add: clip_negative_def)
  have e00: "s0 * s0 * (m00 c / n0 / n0) = m00 c"
  proof (cases "s0 = 0")
    case True
    with s0(2) show ?thesis by simp
  next
    case False
    then show ?thesis using s0(2) by (simp add: n0_def)
  qed
  have e11: "s1 * s1 * (m11 c / n1 / n1) = m11 c"
  proof (cases "s1 = 0")
    case True
    with s1(2) show ?thesis by simp
  next
    case False
    then show ?thesis using s1(2) by (simp add: n1_def)
  qed
  have e10: "s0 * s1 * (m10 c / n0 / n1) = m10 c"
  proof (cases "s0 = 0 \<or> s1 = 0")
    case True
    then have "m00 c * m11 c = 0" using s0(2) s1(2) by auto
    with det have "m10 c * m10 c \<le> 0" by simp
    then have "m10 c = 0" by (auto simp: mult_le_0_iff)
    with True show ?thesis by auto
  next
    case False
    then show ?thesis by (simp add: n0_def n1_def)
  qed
  have e01: "s1 * s0 * (m10 c / n0 / n1) = m10 c" using e10 by (simp add: mult.commute)
  show ?thesis
    unfolding effective_cov_def Let_def
    unfolding s0_def [symmetric] s1_def [symmetric]
    unfolding n0_def [symmetric] n1_def [symmetric]
    unfolding clip
    using e00 e11 e10 e01 by simp
qed

subsection \<open>The effective-variance fit of the cooling script\<close>

lemma lift2_sqrt:
  "lift2 (\<lambda>ye xe. np_sqrt (ye\<^sup>2 + (m * xe)\<^sup>2)) a b =
    (case (a, b) of (Some sy, Some sx) \<Rightarrow> Some (sqrt (sy\<^sup>2 + (m * sx)\<^sup>2)) | _ \<Rightarrow> None)"
  by (auto simp: lift2_def np_sqrt_def not_less [symmetric] split: option.splits)
    (metis not_less sum_power2_ge_zero)

lemma sigma_eff_of_nth:
  assumes "i < length y_err" "i < length x_err" "y_err ! i = Some ye" "x_err ! i = Some xe"
  shows "sigma_eff_of m_init y_err x_err ! i = Some (sqrt (ye\<^sup>2 + (m_init * xe)\<^sup>2))"
  using assms by (simp add: sigma_eff_of_def lift2_sqrt)

lemma first_pass_example:
  "refine 0 [Some 0, Some 1, Some 2] [Some 0, Some 3, Some 2] [Some 4, Some 0, Some 0]
      [Some 3, Some 3, Some 3]
   = Returned (Fit (Some (1, 2 / 3)) (Some \<lparr>m00 = 9 / 2, m01 = - (9 / 2), m10 = - (9 / 2), m11 = 15 / 2\<rparr>))"
  by (simp add: curve_fit_def weights_of_def solve_def leastsq_def
        h00_def h01_def h11_def g0_def g1_def jac_linear Let_def)

lemma second_pass_example:
  "refine 1 [Some 0, Some 1, Some 2] [Some 0, Some 3, Some 2] [Some 4, Some 0, Some 0]
      [Some 3, Some 3, Some 3]
   = Returned (Fit (Some (19 / 35, 10 / 7))
       (Some \<lparr>m00 = 531 / 70, m01 = - (135 / 14), m10 = - (135 / 14), m11 = 225 / 14\<rparr>))"
proof -
  have "sqrt 25 = 5" using real_sqrt_abs [of 5] by simp
  then show ?thesis
    unfolding One_nat_def refine.simps first_pass_example
    by (simp add: curve_fit_def weights_of_def solve_def leastsq_def
        h00_def h01_def h11_def g0_def g1_def jac_linear Let_def)
qed

lemma third_pass_example:
  "refine 2 [Some 0, Some 1, Some 2] [Some 0, Some 3, Some 2] [Some 4, Some 0, Some 0]
      [Some 3, Some 3, Some 3]
   = Returned (Fit (Some (30187 / 35963, 33602 / 35963))
       (Some \<lparr>m00 = 401643 / 71926, m01 = - (453627 / 71926), m10 = - (453627 / 71926),
              m11 = 756045 / 71926\<rparr>))"
proof -
  have two: "(2::nat) = Suc 1" by simp
  show ?thesis
    unfolding two refine.simps second_pass_example
    by (simp add: curve_fit_def weights_of_def solve_def leastsq_def
        h00_def h01_def h11_def g0_def g1_def jac_linear Let_def power2_eq_square)
qed

lemma cooling_reports_second_pass:
  assumes "cooling_analysis df = Returned r"
  shows "\<exists>p_bar R_ohm m b c.
        df ''Druck (Bar)'' = Some p_bar \<and> df ''Ohmzahl (Ohm)'' = Some R_ohm
      \<and> cooling_fit
            (x_val_of (T_kelvin_of (resistance_to_temperature (as_float R_ohm))))
            (y_val_of (as_float p_bar))
            (x_err_of (sigma_T_of (resistance_to_temperature (as_float R_ohm)))
                      (T_kelvin_of (resistance_to_temperature (as_float R_ohm))))
            (y_err_of (sigma_p_of (as_float p_bar)) (as_float p_bar))
          = Returned (Fit (Some (m, b)) (Some c))
      \<and> nominal_value (c_slope r) = m \<and> nominal_value (c_intercept r) = b
      \<and> c_sources r = \<lparr>fit_cov = effective_cov c, volume_var = 0\<rparr>
      \<and> Delta_H_kJ_of (c_slope r) = Returned (c_Delta_H_kJ r)"
proof -
  from assms obtain p_bar where p: "df ''Druck (Bar)'' = Some p_bar"
    by (auto simp: cooling_analysis_def column_def and_then_def split: option.splits)
  from assms p obtain R_ohm where R: "df ''Ohmzahl (Ohm)'' = Some R_ohm"
    by (auto simp: cooling_analysis_def column_def and_then_def split: option.splits)
  let ?fit = "cooling_fit
            (x_val_of (T_kelvin_of (resistance_to_temperature (as_float R_ohm))))
            (y_val_of (as_float p_bar))
            (x_err_of (sigma_T_of (resistance_to_temperature (as_float R_ohm)))
                      (T_kelvin_of (resistance_to_temperature (as_float R_ohm))))
            (y_err_of (sigma_p_of (as_float p_bar)) (as_float p_bar))"
  from assms p R obtain ft where ft: "?fit = Returned ft"
    by (auto simp: cooling_analysis_def column_def and_then_def split: outcome.splits)
  obtain po pc where ftc: "ft = Fit po pc" by (cases ft)
  from assms p R ft ftc obtain m b c where po: "po = Some (m, b)" and pc: "pc = Some c"
    by (cases po; cases pc) (auto simp: cooling_analysis_def column_def and_then_def)
  from assms p R ft ftc po pc
  have "nominal_value (c_slope r) = m \<and> nominal_value (c_intercept r) = b
      \<and> c_sources r = \<lparr>fit_cov = effective_cov c, volume_var = 0\<rparr>
      \<and> Delta_H_kJ_of (c_slope r) = Returned (c_Delta_H_kJ r)"
    by (auto simp: cooling_analysis_def column_def and_then_def correlated_values_def
          split: outcome.splits if_splits)
  with p R ft ftc po pc show ?thesis by blast
qed

lemma np_sqrt_of_square:
  fixes q r :: real
  assumes "0 \<le> r" "q = r * r"
  shows "np_sqrt q = Some r"
  using assms by (simp add: np_sqrt_def not_less)

lemma example_temperatures:
  "resistance_to_temperature [1000, 1385.055] = [Some 0, Some 100]"
proof -
  have a: "np_sqrt ((3.9083 / 10 ^ 3)\<^sup>2 - 4 * (- 5.775 / 10 ^ 7) * (1 - 1000 / 1000))
      = Some (39083 / 10000000)"
    by (rule np_sqrt_of_square) (simp_all add: power2_eq_square)
  have b: "np_sqrt ((3.9083 / 10 ^ 3)\<^sup>2 - 4 * (- 5.775 / 10 ^ 7) * (1 - 1385.055 / 1000))
      = Some (37928 / 10000000)"
    by (rule np_sqrt_of_square) (simp_all add: power2_eq_square)
  show ?thesis
    unfolding resistance_to_temperature_def list.map a b
    by simp
qed

lemma example_arrays:
  "x_val_of (T_kelvin_of [Some 0, Some 100]) = [Some (20 / 5463), Some (20 / 7463)]"
  "y_val_of [exp (- 5), 1] = [Some (- 5), Some 0]"
  "y_err_of (sigma_p_of [exp (- 5), 1]) [exp (- 5), 1] = [Some 0.01, Some 0.01]"
  by (simp_all add: x_val_of_def T_kelvin_of_def lift2_def np_divide_def y_val_of_def np_log_def
        y_err_of_def sigma_p_of_def)

lemma example_x_err:
  "x_err_of (sigma_T_of [Some 0, Some 100]) (T_kelvin_of [Some 0, Some 100])
     = [Some (sqrt (93361 / 592900) / (5463 / 20)\<^sup>2), Some (sqrt (104864 / 148225) / (7463 / 20)\<^sup>2)]"
proof -
  have a: "np_sqrt ((1.0 / 3.85)\<^sup>2 + (0.3 + 0.005 * 0)\<^sup>2) = Some (sqrt (93361 / 592900))"
    by (simp add: np_sqrt_def power2_eq_square)
  have b: "np_sqrt ((1.0 / 3.85)\<^sup>2 + (0.3 + 0.005 * 100)\<^sup>2) = Some (sqrt (104864 / 148225))"
    by (simp add: np_sqrt_def power2_eq_square)
  have "sigma_T_of [Some 0, Some 100] = [Some (sqrt (93361 / 592900)), Some (sqrt (104864 / 148225))]"
    unfolding sigma_T_of_def list.map Option.bind.simps a b ..
  then show ?thesis
    by (simp add: x_err_of_def T_kelvin_of_def lift2_def np_divide_def)
qed

lemma weighted_product:
  fixes a b q :: real
  assumes "0 \<le> q"
  shows "a / sqrt q * (b / sqrt q) = a * b / q"
  using assms by simp

lemma example_first_pass:
  "curve_fit linear_model [Some (20 / 5463), Some (20 / 7463)] [Some (- 5), Some 0]
      [Some 0.01, Some 0.01] True
   = Returned (Fit (Some (- (40770369 / 8000), 5463 / 400))
       (Some \<lparr>m00 = 1662222988396161 / 8000000000000, m01 = - (263498894847 / 400000000000),
              m10 = - (263498894847 / 400000000000), m11 = 42770369 / 20000000000\<rparr>))"
  by (simp add: curve_fit_def weights_of_def solve_def leastsq_def
        h00_def h01_def h11_def g0_def g1_def jac_linear Let_def)

lemma example_sigma_eff:
  "sigma_eff_of (- (40770369 / 8000)) [Some 0.01, Some 0.01]
      [Some (sqrt (93361 / 592900) / (5463 / 20)\<^sup>2), Some (sqrt (104864 / 148225) / (7463 / 20)\<^sup>2)]
   = [Some (sqrt (5907657761413 / 7077890552040000)),
      Some (sqrt (3459823682617 / 3302237718010000))]"
proof -
  have a: "(0.01::real)\<^sup>2 + (- (40770369 / 8000) * (sqrt (93361 / 592900) / (5463 / 20)\<^sup>2))\<^sup>2
        = 5907657761413 / 7077890552040000"
    by (simp add: power_mult_distrib power_divide)
  have b: "(0.01::real)\<^sup>2 + (- (40770369 / 8000) * (sqrt (104864 / 148225) / (7463 / 20)\<^sup>2))\<^sup>2
        = 3459823682617 / 3302237718010000"
    by (simp add: power_mult_distrib power_divide)
  show ?thesis
    unfolding sigma_eff_of_def zip.simps list.map lift2_sqrt
    by (simp only: list.case prod.case option.case a b zip_Cons_Cons zip_Nil list.map split: )
qed

lemma example_second_pass:
  "curve_fit linear_model [Some (20 / 5463), Some (20 / 7463)] [Some (- 5), Some 0]
      [Some (sqrt (5907657761413 / 7077890552040000)),
       Some (sqrt (3459823682617 / 3302237718010000))] True
   = Returned (Fit (Some (- (40770369 / 8000), 5463 / 400))
       (Some \<lparr>m00 = 742060105241214944089 / 379456000000000000,
              m01 = - (2442712591550447 / 387200000000000),
              m10 = - (2442712591550447 / 387200000000000),
              m11 = 19746952491881 / 948640000000000\<rparr>))"
  by (simp add: curve_fit_def weights_of_def solve_def leastsq_def
        h00_def h01_def h11_def g0_def g1_def jac_linear Let_def weighted_product)

lemma example_cooling_fit:
  "cooling_fit [Some (20 / 5463), Some (20 / 7463)] [Some (- 5), Some 0]
      [Some (sqrt (93361 / 592900) / (5463 / 20)\<^sup>2), Some (sqrt (104864 / 148225) / (7463 / 20)\<^sup>2)]
      [Some 0.01, Some 0.01]
   = Returned (Fit (Some (- (40770369 / 8000), 5463 / 400))
       (Some \<lparr>m00 = 742060105241214944089 / 379456000000000000,
              m01 = - (2442712591550447 / 387200000000000),
              m10 = - (2442712591550447 / 387200000000000),
              m11 = 19746952491881 / 948640000000000\<rparr>))"
  unfolding cooling_fit_def example_first_pass and_then_def
  by (simp only: outcome.case fit.sel option.case fst_conv example_sigma_eff example_second_pass)

lemma cooling_example_runs: "\<exists>r. cooling_analysis cooling_example = Returned r"
proof -
  have cv: "correlated_values (- (40770369 / 8000), 5463 / 400)
        \<lparr>m00 = 742060105241214944089 / 379456000000000000,
              m01 = - (2442712591550447 / 387200000000000),
              m10 = - (2442712591550447 / 387200000000000),
              m11 = 19746952491881 / 948640000000000\<rparr>
      = Returned (\<lparr>nominal_value = - (40770369 / 8000), d_slope = 1, d_intercept = 0, d_volume = 0\<rparr>,
                  \<lparr>nominal_value = 5463 / 400, d_slope = 0, d_intercept = 1, d_volume = 0\<rparr>,
                  \<lparr>m00 = 742060105241214944089 / 379456000000000000,
              m01 = - (2442712591550447 / 387200000000000),
              m10 = - (2442712591550447 / 387200000000000),
              m11 = 19746952491881 / 948640000000000\<rparr>)"
    by (simp add: correlated_values_def
          effective_cov_valid [of "\<lparr>m00 = 742060105241214944089 / 379456000000000000,
              m01 = - (2442712591550447 / 387200000000000),
              m10 = - (2442712591550447 / 387200000000000),
              m11 = 19746952491881 / 948640000000000\<rparr>",
             unfolded valid_covariance_def, simplified])
  have fit: "cooling_fit
            (x_val_of (T_kelvin_of (resistance_to_temperature [1000, 1385.055])))
            (y_val_of [exp (- 5), 1])
            (x_err_of (sigma_T_of (resistance_to_temperature [1000, 1385.055]))
                      (T_kelvin_of (resistance_to_temperature [1000, 1385.055])))
            (y_err_of (sigma_p_of [exp (- 5), 1]) [exp (- 5), 1])
     = Returned (Fit (Some (- (40770369 / 8000), 5463 / 400))
       (Some \<lparr>m00 = 742060105241214944089 / 379456000000000000,
              m01 = - (2442712591550447 / 387200000000000),
              m10 = - (2442712591550447 / 387200000000000),
              m11 = 19746952491881 / 948640000000000\<rparr>))"
    unfolding example_temperatures example_arrays example_x_err by (rule example_cooling_fit)
  have col: "as_float (Float64 v) = v" for v by (simp add: as_float_def)
  show ?thesis
    unfolding cooling_analysis_def cooling_example_def column_def
    by (simp add: and_then_def col fit [simplified] cv Delta_H_kJ_of_def udiv_def umul_def
          uneg_def uconst_def py_div_def std_dev_def variance_def R_GAS_def)
qed

text \<open>
  C3. When both \<open>sigma_x\<close> and \<open>sigma_y\<close> are supplied the cooling script runs
  exactly two passes: the first fits with \<open>sigma_y\<close> alone and gives the slope
  \<open>m\<^sub>0\<close>; the second recomputes \<open>sigma_eff\<^sub>i\<^sup>2 = sigma_y\<^sub>i\<^sup>2 + (m\<^sub>0 * sigma_x\<^sub>i)\<^sup>2\<close> for
  every point and fits once more. In the words of the specification: the fit
  of the script is the refinement with one refit after the initial pass. It is
  not iterated further: a third pass would change the result. The result of the
  second pass is the one reported: whenever the analysis of the script returns,
  the slope, the intercept and the covariance in its results are those of the
  second pass, and the enthalpy is derived from that slope.
\<close>

theorem two_pass_refinement:
  "cooling_fit x y sigma_x sigma_y = refine 1 x y sigma_x sigma_y
   \<and> cooling_fit [Some 0, Some 1, Some 2] [Some 0, Some 3, Some 2] [Some 4, Some 0, Some 0]
        [Some 3, Some 3, Some 3]
      \<noteq> refine 2 [Some 0, Some 1, Some 2] [Some 0, Some 3, Some 2] [Some 4, Some 0, Some 0]
        [Some 3, Some 3, Some 3]
   \<and> (cooling_analysis df = Returned r \<longrightarrow>
        (\<exists>p_bar R_ohm m b c.
            df ''Druck (Bar)'' = Some p_bar \<and> df ''Ohmzahl (Ohm)'' = Some R_ohm
          \<and> refine 1
                (x_val_of (T_kelvin_of (resistance_to_temperature (as_float R_ohm))))
                (y_val_of (as_float p_bar))
                (x_err_of (sigma_T_of (resistance_to_temperature (as_float R_ohm)))
                          (T_kelvin_of (resistance_to_temperature (as_float R_ohm))))
                (y_err_of (sigma_p_of (as_float p_bar)) (as_float p_bar))
              = Returned (Fit (Some (m, b)) (Some c))
          \<and> nominal_value (c_slope r) = m \<and> nominal_value (c_intercept r) = b
          \<and> c_sources r = \<lparr>fit_cov = effective_cov c, volume_var = 0\<rparr>
          \<and> Delta_H_kJ_of (c_slope r) = Returned (c_Delta_H_kJ r)))"
proof -
  have eff: "sigma_eff_of m sigma_y sigma_x =
      map2 (\<lambda>sy sx. case (sy, sx) of
                      (Some sy, Some sx) \<Rightarrow> Some (sqrt (sy\<^sup>2 + (m * sx)\<^sup>2))
                    | _ \<Rightarrow> None) sigma_y sigma_x" for m sigma_y sigma_x
    by (simp add: sigma_eff_of_def lift2_sqrt)
  have two: "cooling_fit x y sigma_x sigma_y = refine 1 x y sigma_x sigma_y" for x y sigma_x sigma_y
    by (simp add: cooling_fit_def and_then_def eff
          split: outcome.splits option.splits prod.splits cong del: option.case_cong_weak)
  have third: "cooling_fit [Some 0, Some 1, Some 2] [Some 0, Some 3, Some 2] [Some 4, Some 0, Some 0]
        [Some 3, Some 3, Some 3]
      \<noteq> refine 2 [Some 0, Some 1, Some 2] [Some 0, Some 3, Some 2] [Some 4, Some 0, Some 0]
        [Some 3, Some 3, Some 3]"
    unfolding two second_pass_example third_pass_example by simp
  have reported: "cooling_analysis df = Returned r \<longrightarrow>
        (\<exists>p_bar R_ohm m b c.
            df ''Druck (Bar)'' = Some p_bar \<and> df ''Ohmzahl (Ohm)'' = Some R_ohm
          \<and> refine 1
                (x_val_of (T_kelvin_of (resistance_to_temperature (as_float R_ohm))))
                (y_val_of (as_float p_bar))
                (x_err_of (sigma_T_of (resistance_to_temperature (as_float R_ohm)))
                          (T_kelvin_of (resistance_to_temperature (as_float R_ohm))))
                (y_err_of (sigma_p_of (as_float p_bar)) (as_float p_bar))
              = Returned (Fit (Some (m, b)) (Some c))
          \<and> nominal_value (c_slope r) = m \<and> nominal_value (c_intercept r) = b
          \<and> c_sources r = \<lparr>fit_cov = effective_cov c, volume_var = 0\<rparr>
          \<and> Delta_H_kJ_of (c_slope r) = Returned (c_Delta_H_kJ r))"
    using cooling_reports_second_pass [of df r] unfolding two by blast
  from two third reported show ?thesis by blast
qed

theorem two_pass_refinement_witness:
  "\<exists>r. cooling_analysis cooling_example = Returned r
     \<and> (\<exists>p_bar R_ohm m b c.
            cooling_example ''Druck (Bar)'' = Some p_bar
          \<and> cooling_example ''Ohmzahl (Ohm)'' = Some R_ohm
          \<and> refine 1
                (x_val_of (T_kelvin_of (resistance_to_temperature (as_float R_ohm))))
                (y_val_of (as_float p_bar))
                (x_err_of (sigma_T_of (resistance_to_temperature (as_float R_ohm)))
                          (T_kelvin_of (resistance_to_temperature (as_float R_ohm))))
                (y_err_of (sigma_p_of (as_float p_bar)) (as_float p_bar))
              = Returned (Fit (Some (m, b)) (Some c))
          \<and> nominal_value (c_slope r) = m \<and> nominal_value (c_intercept r) = b
          \<and> c_sources r = \<lparr>fit_cov = effective_cov c, volume_var = 0\<rparr>
          \<and> Delta_H_kJ_of (c_slope r) = Returned (c_Delta_H_kJ r))"
proof -
  from cooling_example_runs obtain r where r: "cooling_analysis cooling_example = Returned r"
    by blast
  from two_pass_refinement [of _ _ _ _ cooling_example r] r show ?thesis by blast
qed

text \<open>
  C9. For every point with finite \<open>y_err\<close> and \<open>x_err\<close> the effective uncertainty
  of the second pass is at least \<open>\<bar>y_err\<bar>\<close>, so the weight \<open>1 / sigma\<^sup>2\<close> of the
  point in the second pass does not exceed its weight in the first.
\<close>

theorem sigma_eff_not_below_y_err:
  assumes "i < length y_err" "i < length x_err" "y_err ! i = Some ye" "x_err ! i = Some xe"
  shows "\<exists>s. sigma_eff_of m_init y_err x_err ! i = Some s \<and> \<bar>ye\<bar> \<le> s
           \<and> (ye \<noteq> 0 \<longrightarrow> 1 / s\<^sup>2 \<le> 1 / ye\<^sup>2)"
proof -
  let ?s = "sqrt (ye\<^sup>2 + (m_init * xe)\<^sup>2)"
  have ge: "\<bar>ye\<bar> \<le> ?s"
    by (rule real_le_rsqrt) simp
  have "1 / ?s\<^sup>2 \<le> 1 / ye\<^sup>2" if "ye \<noteq> 0"
  proof -
    have "0 < ye\<^sup>2" using that by simp
    moreover have "ye\<^sup>2 \<le> ?s\<^sup>2" by simp
    ultimately show ?thesis by (intro frac_le) simp_all
  qed
  with ge sigma_eff_of_nth [OF assms, of m_init] show ?thesis by blast
qed

theorem sigma_eff_not_below_y_err_witness:
  "\<exists>s. sigma_eff_of 2 [Some 3] [Some 2] ! 0 = Some s \<and> \<bar>3\<bar> \<le> s \<and> ((3::real) \<noteq> 0 \<longrightarrow> 1 / s\<^sup>2 \<le> 1 / 3\<^sup>2)"
  using sigma_eff_not_below_y_err [of 0 "[Some 3]" "[Some 2]" 3 2 2] by simp

subsection \<open>The uncertainties of the cooling script\<close>

lemma y_err_constant:
  assumes "\<forall>p \<in> set p_bar. p \<noteq> 0"
  shows "y_err_of (sigma_p_of p_bar) p_bar = replicate (length p_bar) (Some 0.01)"
  using assms
  by (induction p_bar) (simp_all add: y_err_of_def sigma_p_of_def np_divide_def)

lemma those_None: "None \<in> set xs \<Longrightarrow> those xs = None"
  by (induction xs) (auto split: option.splits)

lemma y_val_nonpositive:
  assumes "\<exists>p \<in> set p_bar. p \<le> 0"
  shows "those (y_val_of p_bar) = None"
proof -
  from assms obtain p where "p \<in> set p_bar" "p \<le> 0" by blast
  then have "None \<in> set (y_val_of p_bar)"
    by (force simp: y_val_of_def np_log_def)
  then show ?thesis by (rule those_None)
qed

text \<open>
  C10. With \<open>sigma_p = 0.01 * p_bar\<close> and \<open>y_err = sigma_p / p_bar\<close>, every point
  of an input without a zero pressure has the first-pass uncertainty \<open>0.01\<close>,
  whatever the pressures are. The logarithm is finite when every pressure is
  positive; a pressure that is not makes the run end with the ValueError that
  \<open>curve_fit\<close> raises on non-finite data.
\<close>

theorem pass1_uniform_weights:
  "((\<forall>p \<in> set p_bar. p \<noteq> 0) \<longrightarrow>
      y_err_of (sigma_p_of p_bar) p_bar = replicate (length p_bar) (Some 0.01))
   \<and> ((\<forall>p \<in> set p_bar. 0 < p) \<longrightarrow> None \<notin> set (y_val_of p_bar))
   \<and> (df ''Druck (Bar)'' = Some q_bar \<and> df ''Ohmzahl (Ohm)'' = Some R_ohm
        \<and> (\<exists>p \<in> set (as_float q_bar). p \<le> 0) \<longrightarrow> cooling_analysis df = Raised ValueError)"
proof (intro conjI impI)
  assume "\<forall>p \<in> set p_bar. p \<noteq> 0"
  then show "y_err_of (sigma_p_of p_bar) p_bar = replicate (length p_bar) (Some 0.01)"
    by (rule y_err_constant)
next
  assume "\<forall>p \<in> set p_bar. 0 < p"
  then show "None \<notin> set (y_val_of p_bar)"
    by (auto simp: y_val_of_def np_log_def)
next
  assume a: "df ''Druck (Bar)'' = Some q_bar \<and> df ''Ohmzahl (Ohm)'' = Some R_ohm
        \<and> (\<exists>p \<in> set (as_float q_bar). p \<le> 0)"
  then have "those (y_val_of (as_float q_bar)) = None" by (simp add: y_val_nonpositive)
  with a show "cooling_analysis df = Raised ValueError"
    by (simp add: cooling_analysis_def column_def and_then_def cooling_fit_def curve_fit_def)
qed

theorem pass1_uniform_weights_witness:
  "y_err_of (sigma_p_of [2, 1/2]) [2, 1/2] = [Some 0.01, Some 0.01]
   \<and> None \<notin> set (y_val_of [2, 1/2])
   \<and> cooling_analysis [''Druck (Bar)'' \<mapsto> Float64 [2, 0], ''Ohmzahl (Ohm)'' \<mapsto> Float64 [1100, 1200]]
       = Raised ValueError"
  using pass1_uniform_weights [of "[2, 1/2]"
          "[''Druck (Bar)'' \<mapsto> Float64 [2, 0], ''Ohmzahl (Ohm)'' \<mapsto> Float64 [1100, 1200]]"
          "Float64 [2, 0]" "Float64 [1100, 1200]"]
  by (simp add: as_float_def)

subsection \<open>Degenerate sample sets\<close>





subsection \<open>The end-to-end scenario\<close>

lemma heating_example_fit:
  "curve_fit linear_model (to_numpy [0, 10, 20, 30]) (to_numpy [1000, 1040, 1080, 1120])
      [Some SIGMA_P, Some SIGMA_P, Some SIGMA_P, Some SIGMA_P] True
   = Returned (Fit (Some (4, 1000)) (Some \<lparr>m00 = 1 / 20, m01 = - (3 / 4), m10 = - (3 / 4), m11 = 35 / 2\<rparr>))"
  by (simp add: curve_fit_def to_numpy_def weights_of_def solve_def leastsq_def SIGMA_P_def
        h00_def h01_def h11_def g0_def g1_def jac_linear Let_def)

lemma heating_example_analysis:
  "heating_analysis heating_example = Returned
     \<lparr>h_slope = \<lparr>nominal_value = 4, d_slope = 1, d_intercept = 0, d_volume = 0\<rparr>,
      h_intercept = \<lparr>nominal_value = 1000, d_slope = 0, d_intercept = 1, d_volume = 0\<rparr>,
      h_T0 = \<lparr>nominal_value = - 250, d_slope = 125 / 2, d_intercept = - (1 / 4), d_volume = 0\<rparr>,
      h_sigma_deviation = (463 / 20) / sqrt (7035 / 32),
      h_sources = \<lparr>fit_cov = \<lparr>m00 = 1 / 20, m01 = - (3 / 4), m10 = - (3 / 4), m11 = 35 / 2\<rparr>,
                    volume_var = 0\<rparr>\<rparr>"
proof -
  have var: "variance \<lparr>fit_cov = \<lparr>m00 = 1 / 20, m01 = - (3 / 4), m10 = - (3 / 4), m11 = 35 / 2\<rparr>,
                        volume_var = 0\<rparr>
               \<lparr>nominal_value = - 250, d_slope = 125 / 2, d_intercept = - (1 / 4), d_volume = 0\<rparr>
             = 7035 / 32"
    by (simp add: variance_def)
  have fit: "curve_fit linear_model (to_numpy [0, 10, 20, 30]) (to_numpy [1000, 1040, 1080, 1120])
      (replicate (length [1000, 1040, 1080, 1120 :: real]) (Some SIGMA_P)) True
   = Returned (Fit (Some (4, 1000)) (Some \<lparr>m00 = 1 / 20, m01 = - (3 / 4), m10 = - (3 / 4), m11 = 35 / 2\<rparr>))"
    using heating_example_fit by simp
  have T0: "absolute_zero \<lparr>nominal_value = 4, d_slope = 1, d_intercept = 0, d_volume = 0\<rparr>
               \<lparr>nominal_value = 1000, d_slope = 0, d_intercept = 1, d_volume = 0\<rparr>
            = Returned \<lparr>nominal_value = - 250, d_slope = 125 / 2, d_intercept = - (1 / 4), d_volume = 0\<rparr>"
    by (simp add: absolute_zero_def udiv_def uneg_def)
  have cv: "correlated_values (4, 1000) \<lparr>m00 = 1 / 20, m01 = - (3 / 4), m10 = - (3 / 4), m11 = 35 / 2\<rparr>
      = Returned (\<lparr>nominal_value = 4, d_slope = 1, d_intercept = 0, d_volume = 0\<rparr>,
                  \<lparr>nominal_value = 1000, d_slope = 0, d_intercept = 1, d_volume = 0\<rparr>,
                  \<lparr>m00 = 1 / 20, m01 = - (3 / 4), m10 = - (3 / 4), m11 = 35 / 2\<rparr>)"
    by (simp add: correlated_values_def
          effective_cov_valid [of "\<lparr>m00 = 1 / 20, m01 = - (3 / 4), m10 = - (3 / 4), m11 = 35 / 2\<rparr>",
             unfolded valid_covariance_def, simplified])
  show ?thesis
    unfolding heating_analysis_def heating_example_def column_def
    by (simp add: and_then_def as_float_def to_numpy_def [symmetric] heating_example_fit cv T0
          std_dev_def var py_div_def lit_value_def)
qed

text \<open>
  C4. For \<open>x = [0, 10, 20, 30]\<close>, \<open>y = [1000, 1040, 1080, 1120]\<close> and the uniform
  \<open>sigma_y = 5\<close> the fit returns \<open>m = 4\<close> and \<open>b = 1000\<close>, and the heating script
  derives \<open>T0 = - b / m = - 250\<close> with the finite, positive standard deviation
  \<open>sqrt (7035 / 32)\<close>.
\<close>

theorem regression_scenario:
  "curve_fit linear_model (to_numpy [0, 10, 20, 30]) (to_numpy [1000, 1040, 1080, 1120])
      (replicate 4 (Some 5)) True
     = Returned (Fit (Some (4, 1000)) (Some \<lparr>m00 = 1 / 20, m01 = - (3 / 4), m10 = - (3 / 4), m11 = 35 / 2\<rparr>))
   \<and> (\<exists>r. heating_analysis heating_example = Returned r
        \<and> nominal_value (h_slope r) = 4 \<and> nominal_value (h_intercept r) = 1000
        \<and> nominal_value (h_T0 r) = - 250
        \<and> std_dev (h_sources r) (h_T0 r) = sqrt (7035 / 32)
        \<and> 0 < std_dev (h_sources r) (h_T0 r))"
proof -
  have "replicate 4 (Some (5::real)) = [Some SIGMA_P, Some SIGMA_P, Some SIGMA_P, Some SIGMA_P]"
    by (simp add: SIGMA_P_def numeral_eq_Suc)
  then have "curve_fit linear_model (to_numpy [0, 10, 20, 30]) (to_numpy [1000, 1040, 1080, 1120])
      (replicate 4 (Some 5)) True
     = Returned (Fit (Some (4, 1000)) (Some \<lparr>m00 = 1 / 20, m01 = - (3 / 4), m10 = - (3 / 4), m11 = 35 / 2\<rparr>))"
    using heating_example_fit by simp
  moreover have "variance \<lparr>fit_cov = \<lparr>m00 = 1 / 20, m01 = - (3 / 4), m10 = - (3 / 4), m11 = 35 / 2\<rparr>,
                        volume_var = 0\<rparr>
               \<lparr>nominal_value = - 250, d_slope = 125 / 2, d_intercept = - (1 / 4), d_volume = 0\<rparr>
             = 7035 / 32"
    by (simp add: variance_def)
  ultimately show ?thesis
    by (simp add: heating_example_analysis std_dev_def)
qed

subsection \<open>Propagation through a derived quantity\<close>







subsection \<open>The degrees of freedom in the specific-heat script\<close>

lemma f_measured_chain:
  assumes "f_measured_of kappa = Returned f"
  shows "nominal_value f = 2 / (nominal_value kappa - 1)
       \<and> std_dev src f = \<bar>- 2 / (nominal_value kappa - 1)\<^sup>2\<bar> * std_dev src kappa"
proof -
  define t where "t = - 2 / (nominal_value kappa - 1)\<^sup>2"
  from assms have nz: "nominal_value kappa - 1 \<noteq> 0"
    and f: "f = \<lparr>nominal_value = 2 / (nominal_value kappa - 1),
                 d_slope = t * d_slope kappa, d_intercept = t * d_intercept kappa,
                 d_volume = t * d_volume kappa\<rparr>"
    by (auto simp: f_measured_of_def udiv_def usub_def uconst_def t_def split: if_splits)
  have "variance src f = t\<^sup>2 * variance src kappa"
    by (simp add: f variance_def power2_eq_square algebra_simps)
  then have "std_dev src f = \<bar>t\<bar> * std_dev src kappa"
    by (simp add: std_dev_def real_sqrt_mult)
  then show ?thesis by (simp add: f t_def)
qed

lemma specific_heat_f:
  assumes "specific_heat_analysis df = Returned r"
  shows "f_measured_of (s_kappa r) = Returned (s_f_measured r)"
  using assms
  by (auto simp: specific_heat_analysis_def and_then_def
        split: outcome.splits option.splits prod.splits)

lemma specific_heat_example_fit:
  "curve_fit linear_model (to_numpy (Delta_Q (Int64 [0, 1000]))) (to_numpy (Delta_p [100, 1100]))
     (to_numpy (sigma_p_heat (Delta_p [100, 1100]))) True
   = Returned (Fit (Some (981, 981))
       (Some \<lparr>m00 = 962361 / 2000000, m01 = - (962361 / 400000),
              m10 = - (962361 / 400000), m11 = 962361 / 40000\<rparr>))"
  by (simp add: curve_fit_def to_numpy_def weights_of_def solve_def leastsq_def
        Delta_Q_def squared_def as_float_def Delta_p_def sigma_p_heat_def C_capacity_def
        RHO_WATER_def G_def SIGMA_H_def
        h00_def h01_def h11_def g0_def g1_def jac_linear Let_def power2_eq_square)

lemma specific_heat_example_runs:
  "\<exists>r. specific_heat_analysis specific_heat_example = Returned r
      \<and> nominal_value (s_kappa r) = 4.1392"
proof -
  have cv: "correlated_values (981, 981)
        \<lparr>m00 = 962361 / 2000000, m01 = - (962361 / 400000),
         m10 = - (962361 / 400000), m11 = 962361 / 40000\<rparr>
      = Returned (\<lparr>nominal_value = 981, d_slope = 1, d_intercept = 0, d_volume = 0\<rparr>,
                  \<lparr>nominal_value = 981, d_slope = 0, d_intercept = 1, d_volume = 0\<rparr>,
                  \<lparr>m00 = 962361 / 2000000, m01 = - (962361 / 400000),
                   m10 = - (962361 / 400000), m11 = 962361 / 40000\<rparr>)"
    by (simp add: correlated_values_def
          effective_cov_valid [of "\<lparr>m00 = 962361 / 2000000, m01 = - (962361 / 400000),
             m10 = - (962361 / 400000), m11 = 962361 / 40000\<rparr>",
             unfolded valid_covariance_def, simplified])
  show ?thesis
    unfolding specific_heat_analysis_def specific_heat_example_def column_def
    by (simp add: and_then_def as_float_def [of "Float64 _"] specific_heat_example_fit cv
        py_div_def std_dev_def variance_def kappa_of_def umul_def uadd_def uconst_def VOLUME_def
        VOLUME_VAL_def V_ERR_def f_measured_of_def udiv_def usub_def power2_eq_square)
qed

text \<open>
  C8. In the specific-heat script \<open>f = 2 / (kappa - 1)\<close> is computed from
  \<open>kappa\<close>, and the standard deviation the script reports for \<open>f\<close> is
  \<open>\<bar>df/dkappa\<bar> * sigma_kappa\<close> with \<open>df/dkappa = - 2 / (kappa - 1)\<^sup>2\<close>: it is determined
  by the value and the standard deviation of \<open>kappa\<close> alone.
\<close>

theorem degrees_of_freedom_chain:
  assumes "specific_heat_analysis df = Returned r"
  shows "f_measured_of (s_kappa r) = Returned (s_f_measured r)
     \<and> nominal_value (s_f_measured r) = 2 / (nominal_value (s_kappa r) - 1)
     \<and> DERIV (\<lambda>k. 2 / (k - 1)) (nominal_value (s_kappa r))
          :> - 2 / (nominal_value (s_kappa r) - 1)\<^sup>2
     \<and> std_dev (s_sources r) (s_f_measured r)
          = \<bar>- 2 / (nominal_value (s_kappa r) - 1)\<^sup>2\<bar> * std_dev (s_sources r) (s_kappa r)"
proof -
  have f: "f_measured_of (s_kappa r) = Returned (s_f_measured r)"
    by (rule specific_heat_f [OF assms])
  then have nz: "nominal_value (s_kappa r) - 1 \<noteq> 0"
    by (auto simp: f_measured_of_def udiv_def usub_def uconst_def split: if_splits)
  have c: "DERIV (\<lambda>k::real. 2) (nominal_value (s_kappa r)) :> 0" by simp
  have l: "DERIV (\<lambda>k::real. k - 1) (nominal_value (s_kappa r)) :> 1"
    by (auto intro!: derivative_eq_intros)
  have "DERIV (\<lambda>k. 2 / (k - 1)) (nominal_value (s_kappa r))
          :> (0 * (nominal_value (s_kappa r) - 1) - 2 * 1)
              / ((nominal_value (s_kappa r) - 1) * (nominal_value (s_kappa r) - 1))"
    by (rule DERIV_divide [OF c l nz])
  then have d: "DERIV (\<lambda>k. 2 / (k - 1)) (nominal_value (s_kappa r))
          :> - 2 / (nominal_value (s_kappa r) - 1)\<^sup>2"
    by (simp add: power2_eq_square)
  from f f_measured_chain [OF f, of "s_sources r"] d show ?thesis by simp
qed

theorem degrees_of_freedom_chain_witness:
  "\<exists>r. specific_heat_analysis specific_heat_example = Returned r
     \<and> f_measured_of (s_kappa r) = Returned (s_f_measured r)
     \<and> nominal_value (s_f_measured r) = 2 / (nominal_value (s_kappa r) - 1)
     \<and> DERIV (\<lambda>k. 2 / (k - 1)) (nominal_value (s_kappa r))
          :> - 2 / (nominal_value (s_kappa r) - 1)\<^sup>2
     \<and> std_dev (s_sources r) (s_f_measured r)
          = \<bar>- 2 / (nominal_value (s_kappa r) - 1)\<^sup>2\<bar> * std_dev (s_sources r) (s_kappa r)"
proof -
  from specific_heat_example_runs obtain r
    where r: "specific_heat_analysis specific_heat_example = Returned r" by blast
  from degrees_of_freedom_chain [OF r] r show ?thesis by blast
qed

subsection \<open>Loading the input file\<close>

text \<open>
  C6 (as amended). When the input file is missing (\<open>pd.read_csv\<close> raises
  FileNotFoundError) the heating script prints the load error, skips the whole
  analysis block (no fit, no propagation), writes no file and ends normally;
  the only trace it may leave is the output directory, created before loading.
\<close>

theorem missing_file_run:
  assumes "read_csv ev FILENAME = ReadError FileNotFoundError"
  shows "heating_script ev =
     (\<lparr>made_dirs = (if dir_exists ev OUTPUT_DIR then [] else [OUTPUT_DIR]),
       printed = (if dir_exists ev OUTPUT_DIR then [] else [CreatedDirectory]) @ [ErrorLoadingFile],
       written = []\<rparr>,
      Returned None)"
  using assms by (simp add: heating_script_def load_lab_data_def make_output_dir_def)

theorem missing_file_run_witness:
  "heating_script missing_file_env =
     (\<lparr>made_dirs = [OUTPUT_DIR], printed = [CreatedDirectory, ErrorLoadingFile], written = []\<rparr>,
      Returned None)"
  using missing_file_run [of missing_file_env] by (simp add: missing_file_env_def)

text \<open>
  C6 as stated also covers an unreadable file. \<open>load_lab_data\<close> catches
  FileNotFoundError only, so a PermissionError leaves the script as an unhandled
  exception.
\<close>

theorem unreadable_file_counterexample:
  "heating_script unreadable_file_env =
     (\<lparr>made_dirs = [OUTPUT_DIR], printed = [CreatedDirectory], written = []\<rparr>,
      Raised PermissionError)"
  by (simp add: heating_script_def load_lab_data_def make_output_dir_def unreadable_file_env_def)

subsection \<open>Integer columns\<close>

lemma squared_wraps_around:
  "as_float (squared (Int64 [3, 4294967296])) = [9, 0]"
  by (simp add: squared_def as_float_def)

end
